theory Spec2Isabelle
  imports Main "HOL-Library.AList"
begin

section \<open>Python string operations used by the two monitors\<close>

text \<open>
  Texts, file names and paths are \<open>string\<close>s. \<open>lower\<close> is \<open>str.lower()\<close> on ASCII
  letters (every literal the monitors compare against is ASCII); other characters are
  left as they are.
\<close>

definition lower_char :: "char \<Rightarrow> char" where
  "lower_char c =
     (let n = (of_char c :: nat) in if 65 \<le> n \<and> n \<le> 90 then char_of (n + 32) else c)"

definition lower :: "string \<Rightarrow> string" where
  "lower s = map lower_char s"

text \<open>\<open>s.startswith(p)\<close>\<close>

fun startswith :: "string \<Rightarrow> string \<Rightarrow> bool" where
  "startswith s [] = True"
| "startswith [] (p # ps) = False"
| "startswith (c # cs) (p # ps) = (c = p \<and> startswith cs ps)"

text \<open>\<open>sub in s\<close> on strings: \<open>sub\<close> occurs in \<open>s\<close> as a contiguous run.\<close>

fun contains :: "string \<Rightarrow> string \<Rightarrow> bool" where
  "contains [] sub = (sub = [])"
| "contains (c # cs) sub = (startswith (c # cs) sub \<or> contains cs sub)"

text \<open>\<open>sep.join(xs)\<close>\<close>

fun join :: "string \<Rightarrow> string list \<Rightarrow> string" where
  "join sep [] = []"
| "join sep [x] = x"
| "join sep (x # y # ys) = x @ sep @ join sep (y # ys)"

section \<open>Slack monitor: the trigger rules of \<open>check_bot_mentions_and_keywords\<close>\<close>

datatype trigger = bot_mention | aisave_command | keyword_trigger | pattern_match

definition keywords_list :: "string list" where
  "keywords_list = [''/aisave'', ''save this'', ''important'', ''remember this'', ''@ai'', ''@bot'']"

definition patterns :: "string list" where
  "patterns = [''todo:'', ''note:'', ''reminder:'']"

text \<open>
  The mention token built by the f-string in the first rule: the bot's user id between
  the two characters that open a mention and the one that closes it. \<open>bot_user_id\<close> is
  \<open>None\<close> when \<open>auth_test\<close> failed, and Python formats that as the word None.
\<close>

definition mention_token :: "string option \<Rightarrow> string" where
  "mention_token bot_user_id = ''<@'' @ (case bot_user_id of None \<Rightarrow> ''None'' | Some b \<Rightarrow> b) @ ''>''"

definition mention_rule :: "string option \<Rightarrow> string \<Rightarrow> bool" where
  "mention_rule bot_user_id message_text = contains message_text (mention_token bot_user_id)"

definition command_rule :: "string \<Rightarrow> bool" where
  "command_rule message_text = contains (lower message_text) ''/aisave''"

definition keyword_rule :: "string \<Rightarrow> bool" where
  "keyword_rule message_text =
     list_ex (\<lambda>keyword. contains (lower message_text) (lower keyword)) keywords_list"

definition pattern_rule :: "string \<Rightarrow> bool" where
  "pattern_rule message_text =
     list_ex (\<lambda>pattern. contains (lower message_text) pattern) patterns"

text \<open>
  The \<open>if\<close>/\<open>elif\<close> chain that sets \<open>trigger_type\<close> and \<open>trigger_details\<close>;
  \<open>None\<close> is the case where \<open>trigger_type\<close> stays \<open>None\<close>.
\<close>

definition classify :: "string option \<Rightarrow> string \<Rightarrow> (trigger \<times> string) option" where
  "classify bot_user_id message_text =
     (if mention_rule bot_user_id message_text then Some (bot_mention, ''Direct bot mention'')
      else if command_rule message_text then Some (aisave_command, ''Manual /aisave command'')
      else if keyword_rule message_text then
        Some (keyword_trigger,
              ''Keywords: '' @
                join '', '' (filter (\<lambda>kw. contains (lower message_text) (lower kw)) keywords_list))
      else if pattern_rule message_text then
        Some (pattern_match, ''Contains todo/note/reminder pattern'')
      else None)"

definition trigger_type :: "string option \<Rightarrow> string \<Rightarrow> trigger option" where
  "trigger_type bot_user_id message_text = map_option fst (classify bot_user_id message_text)"

section \<open>The local disk and the persisted JSON stores\<close>

text \<open>
  A JSON value as \<open>json.load\<close> returns it; an object is the list of its items in
  insertion order (a Python dict), read with \<open>map_of\<close> and written with
  \<open>AList.update\<close>, which replaces the value of a present key in place and puts a new
  key last, as a dict assignment does.
\<close>

datatype json =
  JNull | JBool bool | JNum int | JStr string | JArr "json list" | JObj "(string \<times> json) list"

text \<open>
  What a file on the local disk holds: \<open>Doc v\<close> is the text \<open>json.dump\<close> wrote for
  \<open>v\<close> (never empty); \<open>Raw bs\<close> is any other byte content, which \<open>json.load\<close>
  refuses; \<open>Raw []\<close> is the file of size 0. The disk maps a path to its file; we
  assume it accepts every write.
\<close>

datatype file_body = Raw string | Doc json

type_synonym disk = "string \<rightharpoonup> file_body"

text \<open>\<open>os.path.exists(p) and os.path.getsize(p) > 0\<close>\<close>

definition exists_nonempty :: "disk \<Rightarrow> string \<Rightarrow> bool" where
  "exists_nonempty d p =
     (case d p of None \<Rightarrow> False | Some (Raw bs) \<Rightarrow> bs \<noteq> [] | Some (Doc v) \<Rightarrow> True)"

text \<open>\<open>json.load(f)\<close>: \<open>None\<close> stands for the exception it raises.\<close>

definition json_load :: "disk \<Rightarrow> string \<Rightarrow> json option" where
  "json_load d p = (case d p of Some (Doc v) \<Rightarrow> Some v | _ \<Rightarrow> None)"

definition LOGGING_FILE :: string where
  "LOGGING_FILE = ''knowledge_base/slack/logging.json''"

text \<open>\<open>JSON_FILE\<close> comes from the configuration file, so it is a parameter.\<close>

definition load_existing_data :: "string \<Rightarrow> disk \<Rightarrow> json" where
  "load_existing_data JSON_FILE d =
     (if exists_nonempty d JSON_FILE then
        (case json_load d JSON_FILE of
           Some v \<Rightarrow> v
         | None \<Rightarrow> JObj [(''events'', JArr []), (''last_updated'', JNull)])
      else JObj [(''events'', JArr []), (''last_updated'', JNull)])"

definition load_logging_data :: "disk \<Rightarrow> json" where
  "load_logging_data d =
     (if exists_nonempty d LOGGING_FILE then
        (case json_load d LOGGING_FILE of
           Some v \<Rightarrow> v
         | None \<Rightarrow>
             JObj [(''messages'', JArr []), (''last_updated'', JNull), (''total_messages'', JNum 0)])
      else JObj [(''messages'', JArr []), (''last_updated'', JNull), (''total_messages'', JNum 0)])"

text \<open>
  \<open>save_to_logging\<close>: \<open>existing_data["messages"].append(message_data)\<close> raises unless
  the loaded value is an object whose \<open>messages\<close> is a list; the handler then returns
  \<open>False\<close> and nothing is written. \<open>now\<close> is \<open>datetime.now().isoformat()\<close>.
\<close>

definition save_to_logging :: "string \<Rightarrow> json \<Rightarrow> disk \<Rightarrow> bool \<times> disk" where
  "save_to_logging now message_data d =
     (case load_logging_data d of
        JObj existing_data \<Rightarrow>
          (case map_of existing_data ''messages'' of
             Some (JArr ms) \<Rightarrow>
               (let e1 = AList.update ''messages'' (JArr (ms @ [message_data])) existing_data;
                    e2 = AList.update ''last_updated'' (JStr now) e1;
                    e3 = AList.update ''total_messages''
                           (JNum (int (length (ms @ [message_data])))) e2
                in (True, d(LOGGING_FILE \<mapsto> Doc (JObj e3))))
           | _ \<Rightarrow> (False, d))
      | _ \<Rightarrow> (False, d))"

definition save_to_json :: "string \<Rightarrow> string \<Rightarrow> json \<Rightarrow> disk \<Rightarrow> bool \<times> disk" where
  "save_to_json JSON_FILE now data d =
     (case load_existing_data JSON_FILE d of
        JObj existing_data \<Rightarrow>
          (case map_of existing_data ''events'' of
             Some (JArr es) \<Rightarrow>
               (let e1 = AList.update ''events'' (JArr (es @ [data])) existing_data;
                    e2 = AList.update ''last_updated'' (JStr now) e1
                in (True, d(JSON_FILE \<mapsto> Doc (JObj e2))))
           | _ \<Rightarrow> (False, d))
      | _ \<Rightarrow> (False, d))"

text \<open>What a reader of the logging store finds under a key, and its list of messages.\<close>

definition logging_field :: "string \<Rightarrow> disk \<Rightarrow> json option" where
  "logging_field k d = (case load_logging_data d of JObj kvs \<Rightarrow> map_of kvs k | _ \<Rightarrow> None)"

definition logging_messages :: "disk \<Rightarrow> json list option" where
  "logging_messages d =
     (case logging_field ''messages'' d of Some (JArr ms) \<Rightarrow> Some ms | _ \<Rightarrow> None)"

section \<open>Slack monitor: the download of one attached file\<close>

text \<open>
  A file object of the Slack API with the keys \<open>download_file\<close> reads; \<open>None\<close> is
  an absent key.
\<close>

record file_info =
  f_id :: "string option"
  f_name :: "string option"
  f_size :: "int option"
  f_url_private_download :: "string option"
  f_url_private :: "string option"
  f_mimetype :: "string option"

definition MAX_FILE_SIZE :: int where
  "MAX_FILE_SIZE = 25 * 1024 * 1024"

definition SUPPORTED_EXTENSIONS :: "string list" where
  "SUPPORTED_EXTENSIONS =
     [''.txt'', ''.pdf'', ''.docx'', ''.json'', ''.md'', ''.csv'', ''.xlsx'', ''.pptx'']"

definition DOWNLOAD_FOLDER :: string where
  "DOWNLOAD_FOLDER = ''knowledge_base/slack''"

text \<open>\<open>s.rfind(c)\<close>: the last index of \<open>c\<close>, or \<open>-1\<close>.\<close>

primrec rfind_from :: "char \<Rightarrow> string \<Rightarrow> int \<Rightarrow> int \<Rightarrow> int" where
  "rfind_from c [] i found = found"
| "rfind_from c (x # xs) i found = rfind_from c xs (i + 1) (if x = c then i else found)"

definition rfind :: "char \<Rightarrow> string \<Rightarrow> int" where
  "rfind c s = rfind_from c s 0 (- 1)"

text \<open>
  \<open>os.path.splitext\<close> (POSIX) of the Python library: the extension starts at the last
  dot of the last path component, unless only dots stand before it in that component.
\<close>

definition splitext :: "string \<Rightarrow> string \<times> string" where
  "splitext p =
     (let sepIndex = rfind (CHR ''/'') p; dotIndex = rfind (CHR ''.'') p
      in if dotIndex > sepIndex \<and>
            list_ex (\<lambda>c. c \<noteq> CHR ''.'')
              (take (nat (dotIndex - (sepIndex + 1))) (drop (nat (sepIndex + 1)) p))
         then (take (nat dotIndex) p, drop (nat dotIndex) p)
         else (p, []))"

text \<open>\<open>os.path.join(folder, name)\<close> for a folder that does not end in a slash.\<close>

definition path_join :: "string \<Rightarrow> string \<Rightarrow> string" where
  "path_join folder name = (if startswith name ''/'' then name else folder @ ''/'' @ name)"

text \<open>\<open>file_info.get('name', f"file_{file_id}")\<close>\<close>

definition file_name_of :: "file_info \<Rightarrow> string" where
  "file_name_of fi =
     (case f_name fi of
        Some n \<Rightarrow> n
      | None \<Rightarrow> ''file_'' @ (case f_id fi of Some i \<Rightarrow> i | None \<Rightarrow> ''None''))"

text \<open>\<open>file_info.get('size', 0)\<close>\<close>

definition file_size_of :: "file_info \<Rightarrow> int" where
  "file_size_of fi = (case f_size fi of Some n \<Rightarrow> n | None \<Rightarrow> 0)"

text \<open>
  \<open>file_info.get('url_private_download') or file_info.get('url_private')\<close>: the first
  one that is present and not the empty string, else the second as it is.
\<close>

definition file_url_of :: "file_info \<Rightarrow> string option" where
  "file_url_of fi =
     (case f_url_private_download fi of
        Some u \<Rightarrow> if u \<noteq> [] then Some u else f_url_private fi
      | None \<Rightarrow> f_url_private fi)"

text \<open>
  The three checks \<open>download_file\<close> makes before it sends any request, in the order of
  the source; each rejection is \<open>return None\<close> after printing its reason.
\<close>

datatype reject_reason = too_large | unsupported_extension | no_download_url

datatype decision = Reject reject_reason | Proceed string

definition download_gate :: "file_info \<Rightarrow> decision" where
  "download_gate fi =
     (let file_name = file_name_of fi; file_size = file_size_of fi; file_url = file_url_of fi
      in if file_size > MAX_FILE_SIZE then Reject too_large
         else if lower (snd (splitext file_name)) \<notin> set SUPPORTED_EXTENSIONS
           then Reject unsupported_extension
         else (case file_url of
                 None \<Rightarrow> Reject no_download_url
               | Some u \<Rightarrow> if u = [] then Reject no_download_url else Proceed u))"

text \<open>
  What \<open>requests.get(file_url, stream=True)\<close> and the iteration over
  \<open>iter_content\<close> meet: no response at all (an exception), or a status code with the
  chunks that arrive and whether the stream then breaks (an exception in the loop)
  instead of ending.
\<close>

datatype http_response =
  ConnectionFailed | Response int "string list" bool

text \<open>The network and the clock as one call of \<open>download_file\<close> sees them.\<close>

record env =
  http_get :: "string \<Rightarrow> http_response"
  now_stamp :: string
  now_iso :: string

record download_result =
  original_name :: string
  saved_path :: string
  total_size :: nat
  result_mimetype :: string
  download_timestamp :: string
  result_file_id :: "string option"

text \<open>\<open>open(path, 'wb')\<close> creates or empties the file; \<open>f.write(chunk)\<close> extends it.\<close>

definition open_wb :: "disk \<Rightarrow> string \<Rightarrow> disk" where
  "open_wb d p = d(p \<mapsto> Raw [])"

definition write_bytes :: "disk \<Rightarrow> string \<Rightarrow> string \<Rightarrow> disk" where
  "write_bytes d p chunk =
     d(p \<mapsto> Raw ((case d p of Some (Raw old) \<Rightarrow> old | _ \<Rightarrow> []) @ chunk))"

primrec write_chunks :: "string \<Rightarrow> string list \<Rightarrow> disk \<times> nat \<Rightarrow> disk \<times> nat" where
  "write_chunks file_path [] acc = acc"
| "write_chunks file_path (chunk # chunks) acc =
     write_chunks file_path chunks
       (write_bytes (fst acc) file_path chunk, snd acc + length chunk)"

definition download_file :: "env \<Rightarrow> file_info \<Rightarrow> disk \<Rightarrow> download_result option \<times> disk" where
  "download_file e fi d =
     (case download_gate fi of
        Reject r \<Rightarrow> (None, d)
      | Proceed file_url \<Rightarrow>
          (case http_get e file_url of
             ConnectionFailed \<Rightarrow> (None, d)
           | Response status_code chunks broken \<Rightarrow>
               if status_code = 200 then
                 (let file_path =
                        path_join DOWNLOAD_FOLDER (now_stamp e @ ''_'' @ file_name_of fi);
                      written = write_chunks file_path chunks (open_wb d file_path, 0)
                  in if broken then (None, fst written)
                     else (Some \<lparr>original_name = file_name_of fi, saved_path = file_path,
                                 total_size = snd written,
                                 result_mimetype =
                                   (case f_mimetype fi of Some t \<Rightarrow> t | None \<Rightarrow> []),
                                 download_timestamp = now_iso e, result_file_id = f_id fi\<rparr>,
                           fst written))
               else (None, d)))"

fun process_message_files ::
  "env \<Rightarrow> file_info list \<Rightarrow> disk \<Rightarrow> (file_info \<times> download_result) list \<times> disk" where
  "process_message_files e [] d = ([], d)"
| "process_message_files e (fi # files) d =
     (case download_file e fi d of
        (download_result, d1) \<Rightarrow>
          (case process_message_files e files d1 of
             (downloaded_files, d2) \<Rightarrow>
               ((case download_result of Some r \<Rightarrow> [(fi, r)] | None \<Rightarrow> []) @ downloaded_files,
                d2)))"

section \<open>Slack monitor: messages, the message log and the trigger events\<close>

text \<open>
  A message of \<open>conversations_history\<close> with the keys the monitor reads (\<open>None\<close> is
  an absent key) and \<open>m_raw\<close>, the message as the API returned it.
\<close>

record message =
  m_user :: "string option"
  m_text :: "string option"
  m_ts :: "string option"
  m_files :: "file_info list"
  m_raw :: json

text \<open>What one call of \<open>client.conversations_history\<close> gives.\<close>

datatype history = SlackApiError | OtherError | Messages "message list"

text \<open>
  \<open>get_recent_messages\<close> turns a \<open>SlackApiError\<close> into the empty list; any other
  exception leaves it (\<open>None\<close>).
\<close>

definition get_recent_messages :: "history \<Rightarrow> message list option" where
  "get_recent_messages h =
     (case h of SlackApiError \<Rightarrow> Some [] | OtherError \<Rightarrow> None | Messages ms \<Rightarrow> Some ms)"

definition message_data :: "env \<Rightarrow> message \<Rightarrow> json" where
  "message_data e m =
     JObj [(''timestamp'', JStr (now_iso e)),
           (''user_id'', (case m_user m of Some u \<Rightarrow> JStr u | None \<Rightarrow> JNull)),
           (''text_usethisforQueries'', JStr (case m_text m of Some t \<Rightarrow> t | None \<Rightarrow> []))]"

text \<open>The inner loop of \<open>log_all_recent_messages\<close> over the messages of one channel.\<close>

fun log_messages :: "env \<Rightarrow> string option \<Rightarrow> message list \<Rightarrow> disk \<Rightarrow> disk" where
  "log_messages e bot_user_id [] d = d"
| "log_messages e bot_user_id (m # messages) d =
     (if m_user m = bot_user_id then log_messages e bot_user_id messages d
      else
        (case process_message_files e (m_files m) d of
           (downloaded_files, d1) \<Rightarrow>
             log_messages e bot_user_id messages
               (snd (save_to_logging (now_iso e) (message_data e m) d1))))"

text \<open>
  The outer loop over \<open>TARGET_CHANNELS\<close>; an exception of the listing ends the whole
  function in its handler. \<open>conversations_history\<close> gives the answer of the API for
  each channel.
\<close>

fun log_all_recent_messages ::
  "env \<Rightarrow> string option \<Rightarrow> (string \<Rightarrow> history) \<Rightarrow> string list \<Rightarrow> disk \<Rightarrow> disk" where
  "log_all_recent_messages e bot_user_id conversations_history [] d = d"
| "log_all_recent_messages e bot_user_id conversations_history (channel # channels) d =
     (case get_recent_messages (conversations_history channel) of
        None \<Rightarrow> d
      | Some messages \<Rightarrow>
          log_all_recent_messages e bot_user_id conversations_history channels
            (log_messages e bot_user_id messages d))"

definition trigger_name :: "trigger \<Rightarrow> string" where
  "trigger_name t =
     (case t of bot_mention \<Rightarrow> ''bot_mention'' | aisave_command \<Rightarrow> ''aisave_command''
      | keyword_trigger \<Rightarrow> ''keyword_trigger'' | pattern_match \<Rightarrow> ''pattern_match'')"

definition event_data :: "env \<Rightarrow> string \<Rightarrow> message \<Rightarrow> trigger \<times> string \<Rightarrow> json" where
  "event_data e channel m trig =
     (let message_text = (case m_text m of Some t \<Rightarrow> t | None \<Rightarrow> []);
          message_user = (case m_user m of Some u \<Rightarrow> u | None \<Rightarrow> []);
          message_ts = (case m_ts m of Some t \<Rightarrow> t | None \<Rightarrow> [])
      in JObj [(''type'', JStr (trigger_name (fst trig))),
               (''timestamp'', JStr (now_iso e)),
               (''trigger_details'', JStr (snd trig)),
               (''message'',
                  JObj [(''text'', JStr message_text), (''user_id'', JStr message_user),
                        (''timestamp'', JStr message_ts), (''channel'', JStr channel),
                        (''permalink'',
                           JStr (''https://app.slack.com/client/T09CV0AF7A4/'' @ channel @
                                 ''/thread/'' @ channel @ ''-'' @ message_ts))]),
               (''raw_message'', m_raw m)])"

text \<open>
  The inner loop of \<open>check_bot_mentions_and_keywords\<close>; here the author is read with
  \<open>message.get('user', '')\<close>, so an absent author is the empty string.
\<close>

fun check_messages ::
  "env \<Rightarrow> string \<Rightarrow> string option \<Rightarrow> string \<Rightarrow> message list \<Rightarrow> disk \<Rightarrow> disk" where
  "check_messages e JSON_FILE bot_user_id channel [] d = d"
| "check_messages e JSON_FILE bot_user_id channel (m # messages) d =
     (if Some (case m_user m of Some u \<Rightarrow> u | None \<Rightarrow> []) = bot_user_id
      then check_messages e JSON_FILE bot_user_id channel messages d
      else
        (case classify bot_user_id (case m_text m of Some t \<Rightarrow> t | None \<Rightarrow> []) of
           None \<Rightarrow> check_messages e JSON_FILE bot_user_id channel messages d
         | Some trig \<Rightarrow>
             check_messages e JSON_FILE bot_user_id channel messages
               (snd (save_to_json JSON_FILE (now_iso e) (event_data e channel m trig) d))))"

fun check_bot_mentions_and_keywords ::
  "env \<Rightarrow> string \<Rightarrow> string option \<Rightarrow> (string \<Rightarrow> history) \<Rightarrow> string list \<Rightarrow> disk \<Rightarrow> disk"
  where
  "check_bot_mentions_and_keywords e JSON_FILE bot_user_id conversations_history [] d = d"
| "check_bot_mentions_and_keywords e JSON_FILE bot_user_id conversations_history
     (channel # channels) d =
     (case get_recent_messages (conversations_history channel) of
        None \<Rightarrow> d
      | Some messages \<Rightarrow>
          check_bot_mentions_and_keywords e JSON_FILE bot_user_id conversations_history channels
            (check_messages e JSON_FILE bot_user_id channel messages d))"

text \<open>
  \<open>check_for_files_in_history\<close>: the scan of one channel's messages, counting
  \<open>files_downloaded\<close>, and the loop over the channels. It calls
  \<open>conversations_history\<close> itself, so every exception of the listing ends it with
  \<open>False\<close>.
\<close>

fun scan_messages ::
  "env \<Rightarrow> string option \<Rightarrow> message list \<Rightarrow> nat \<Rightarrow> disk \<Rightarrow> nat \<times> disk" where
  "scan_messages e bot_user_id [] files_downloaded d = (files_downloaded, d)"
| "scan_messages e bot_user_id (m # messages) files_downloaded d =
     (if m_user m = bot_user_id then scan_messages e bot_user_id messages files_downloaded d
      else if m_files m \<noteq> [] then
        (case process_message_files e (m_files m) d of
           (downloaded_files, d1) \<Rightarrow>
             scan_messages e bot_user_id messages
               (files_downloaded + length downloaded_files) d1)
      else scan_messages e bot_user_id messages files_downloaded d)"

fun check_for_files_in_history ::
  "env \<Rightarrow> string option \<Rightarrow> (string \<Rightarrow> history) \<Rightarrow> string list \<Rightarrow> nat \<Rightarrow> disk \<Rightarrow> bool \<times> disk"
  where
  "check_for_files_in_history e bot_user_id conversations_history [] total_files_downloaded d =
     (total_files_downloaded > 0, d)"
| "check_for_files_in_history e bot_user_id conversations_history (channel # channels)
     total_files_downloaded d =
     (case conversations_history channel of
        Messages messages \<Rightarrow>
          (case scan_messages e bot_user_id messages 0 d of
             (files_downloaded, d1) \<Rightarrow>
               check_for_files_in_history e bot_user_id conversations_history channels
                 (total_files_downloaded + files_downloaded) d1)
      | _ \<Rightarrow> (False, d))"

section \<open>Slack monitor: the polling loop\<close>

text \<open>The options read from \<open>config.json\<close>.\<close>

record config =
  TARGET_CHANNELS :: "string list"
  JSON_FILE :: string
  POLL_INTERVAL :: nat





section \<open>Drive monitor\<close>

text \<open>
  A file of the Drive listing with the fields \<open>get_all_files\<close> asks for. \<open>id\<close> and
  \<open>name\<close> are read with \<open>file['id']\<close> and \<open>file['name']\<close>; the others may be absent.
  \<open>download_file\<close> never reads \<open>size\<close>.
\<close>

record drive_file =
  d_id :: string
  d_name :: string
  d_createdTime :: "string option"
  d_mimeType :: "string option"
  d_size :: "int option"

definition DRIVE_POLL_INTERVAL :: nat where
  "DRIVE_POLL_INTERVAL = 30"

definition DRIVE_DOWNLOAD_FOLDER :: string where
  "DRIVE_DOWNLOAD_FOLDER = ''knowledge_base/drive''"

definition export_formats :: "(string \<times> string) list" where
  "export_formats =
     [(''application/vnd.google-apps.document'',
       ''application/vnd.openxmlformats-officedocument.wordprocessingml.document''),
      (''application/vnd.google-apps.spreadsheet'',
       ''application/vnd.openxmlformats-officedocument.spreadsheetml.sheet''),
      (''application/vnd.google-apps.presentation'',
       ''application/vnd.openxmlformats-officedocument.presentationml.presentation'')]"

text \<open>The request \<open>download_file\<close> builds: an export to a MIME type, or the content.\<close>

datatype request = export_media string string | get_media string

text \<open>
  The first part of the Drive \<open>download_file\<close>, up to the file name: the request and
  the name to save under, or \<open>None\<close> where it returns \<open>False\<close> at once.
\<close>

definition prepare_request :: "string \<Rightarrow> string \<Rightarrow> string \<Rightarrow> (request \<times> string) option" where
  "prepare_request file_id file_name mime_type =
     (if startswith mime_type ''application/vnd.google-apps'' then
        (case map_of export_formats mime_type of
           Some export_mime \<Rightarrow>
             Some (export_media file_id export_mime,
                   if mime_type = ''application/vnd.google-apps.document''
                     then file_name @ ''.docx''
                   else if mime_type = ''application/vnd.google-apps.spreadsheet''
                     then file_name @ ''.xlsx''
                   else if mime_type = ''application/vnd.google-apps.presentation''
                     then file_name @ ''.pptx''
                   else file_name)
         | None \<Rightarrow> None)
      else Some (get_media file_id, file_name))"

text \<open>
  The Drive service answers a request with the chunks \<open>next_chunk\<close> delivers and
  whether an exception then ends the transfer (\<open>True\<close>) instead of \<open>done\<close>. The
  target file is opened before the first chunk is asked for.
\<close>

type_synonym service = "request \<Rightarrow> string list \<times> bool"

definition drive_download_file ::
  "service \<Rightarrow> string \<Rightarrow> string \<Rightarrow> string \<Rightarrow> disk \<Rightarrow> bool \<times> disk" where
  "drive_download_file service file_id file_name mime_type d =
     (case prepare_request file_id file_name mime_type of
        None \<Rightarrow> (False, d)
      | Some (request, file_name') \<Rightarrow>
          (let file_path = path_join DRIVE_DOWNLOAD_FOLDER file_name';
               transfer = service request;
               written = write_chunks file_path (fst transfer) (open_wb d file_path, 0)
           in (\<not> snd transfer, fst written)))"

text \<open>
  The call in the loop:
  \<open>download_file(file['id'], file['name'], file.get('mimeType', ''))\<close>.
\<close>

definition download_listed_file :: "service \<Rightarrow> drive_file \<Rightarrow> disk \<Rightarrow> bool \<times> disk" where
  "download_listed_file service file d =
     drive_download_file service (d_id file) (d_name file)
       (case d_mimeType file of Some t \<Rightarrow> t | None \<Rightarrow> []) d"

text \<open>
  The state of \<open>monitor_drive\<close>: \<open>known_files\<close>, the disk, and a record of what the
  loop did: the ids it treated as new in each poll, in the order of the listing, and
  its sleeps.
\<close>

datatype action = new_files "string list" | sleep nat

record drive_state =
  known_files :: "string set"
  drive_disk :: disk
  actions :: "action list"

text \<open>
  What one pass of the \<open>while True\<close> loop meets: Ctrl+C, a listing that raises, or a
  listing together with the service's answers during that pass.
\<close>

datatype poll = KeyboardInterrupt | ListingError | Listing "drive_file list" service

text \<open>The \<open>for file in current_files\<close> loop; \<open>new_file_ids\<close> stays as computed.\<close>

fun process_new_files ::
  "service \<Rightarrow> string set \<Rightarrow> drive_file list \<Rightarrow> string set \<times> disk \<Rightarrow> string set \<times> disk" where
  "process_new_files service new_file_ids [] kd = kd"
| "process_new_files service new_file_ids (file # current_files) kd =
     (if d_id file \<in> new_file_ids then
        (case download_listed_file service file (snd kd) of
           (success, d1) \<Rightarrow>
             process_new_files service new_file_ids current_files
               (if success then insert (d_id file) (fst kd) else fst kd, d1))
      else process_new_files service new_file_ids current_files kd)"

text \<open>
  One pass of the loop body: the listing, the difference with \<open>known_files\<close>, the
  downloads and the sleep; or, where the listing raises, the handler's sleep. Ctrl+C
  leaves the loop, so a pass does nothing with it.
\<close>

definition poll_cycle :: "poll \<Rightarrow> drive_state \<Rightarrow> drive_state" where
  "poll_cycle p st =
     (case p of
        Listing current_files service \<Rightarrow>
          (let current_file_ids = set (map d_id current_files);
               new_file_ids = current_file_ids - known_files st;
               kd = process_new_files service new_file_ids current_files
                      (known_files st, drive_disk st)
           in \<lparr>known_files = fst kd, drive_disk = snd kd,
               actions = actions st @
                 [new_files (filter (\<lambda>i. i \<in> new_file_ids) (map d_id current_files)),
                  sleep DRIVE_POLL_INTERVAL]\<rparr>)
      | ListingError \<Rightarrow> st\<lparr>actions := actions st @ [sleep DRIVE_POLL_INTERVAL]\<rparr>
      | KeyboardInterrupt \<Rightarrow> st)"

fun monitor_drive_loop :: "poll list \<Rightarrow> drive_state \<Rightarrow> drive_state" where
  "monitor_drive_loop [] st = st"
| "monitor_drive_loop (KeyboardInterrupt # polls) st = st"
| "monitor_drive_loop (p # polls) st = monitor_drive_loop polls (poll_cycle p st)"

text \<open>
  \<open>monitor_drive\<close>: the first listing fills \<open>known_files\<close> without any download; if
  it raises, the function returns before the loop.
\<close>

definition monitor_drive :: "drive_file list option \<Rightarrow> poll list \<Rightarrow> disk \<Rightarrow> drive_state" where
  "monitor_drive initial_files polls d =
     (case initial_files of
        None \<Rightarrow> \<lparr>known_files = {}, drive_disk = d, actions = []\<rparr>
      | Some files \<Rightarrow>
          monitor_drive_loop polls
            \<lparr>known_files = set (map d_id files), drive_disk = d, actions = []\<rparr>)"

text \<open>The new partitions recorded in a list of actions, one per completed listing.\<close>

fun new_partitions :: "action list \<Rightarrow> string list list" where
  "new_partitions [] = []"
| "new_partitions (new_files ids # as) = ids # new_partitions as"
| "new_partitions (sleep n # as) = new_partitions as"

text \<open>
  For the comparison with a history that never held the bot's own messages: the
  answer of a listing with the messages of one author taken out.
\<close>

definition without_author :: "string \<Rightarrow> history \<Rightarrow> history" where
  "without_author b h =
     (case h of Messages ms \<Rightarrow> Messages (filter (\<lambda>m. m_user m \<noteq> Some b) ms) | _ \<Rightarrow> h)"

section \<open>The trigger rules are tried in priority order\<close>

text \<open>
  C3. The label of a message text is that of the first rule that matches, in the order
  direct mention, command token, keyword, pattern; no rule matching gives no label, and
  there is never more than one label. In particular a text that matches a keyword and a
  pattern is never labelled as a pattern match, and is labelled as a keyword match
  whenever no rule of higher priority matches.
\<close>

theorem trigger_priority_order:
  "(mention_rule b t \<longrightarrow> trigger_type b t = Some bot_mention) \<and>
   (\<not> mention_rule b t \<and> command_rule t \<longrightarrow> trigger_type b t = Some aisave_command) \<and>
   (\<not> mention_rule b t \<and> \<not> command_rule t \<and> keyword_rule t \<longrightarrow>
      trigger_type b t = Some keyword_trigger) \<and>
   (\<not> mention_rule b t \<and> \<not> command_rule t \<and> \<not> keyword_rule t \<and> pattern_rule t \<longrightarrow>
      trigger_type b t = Some pattern_match) \<and>
   (\<not> mention_rule b t \<and> \<not> command_rule t \<and> \<not> keyword_rule t \<and> \<not> pattern_rule t \<longrightarrow>
      trigger_type b t = None) \<and>
   (keyword_rule t \<and> pattern_rule t \<longrightarrow>
      trigger_type b t \<noteq> Some pattern_match \<and> trigger_type b t \<noteq> None)"
  by (simp add: trigger_type_def classify_def)

theorem trigger_priority_order_witness:
  "keyword_rule ''Important todo: call Bob'' \<and> pattern_rule ''Important todo: call Bob'' \<and>
   trigger_type (Some ''U1'') ''Important todo: call Bob'' = Some keyword_trigger \<and>
   trigger_type (Some ''U1'') ''Important todo: call Bob'' \<noteq> Some pattern_match"
proof -
  have k: "keyword_rule ''Important todo: call Bob''" by code_simp
  have p: "pattern_rule ''Important todo: call Bob''" by code_simp
  have m: "\<not> mention_rule (Some ''U1'') ''Important todo: call Bob''" by code_simp
  have c: "\<not> command_rule ''Important todo: call Bob''" by code_simp
  from trigger_priority_order [of "Some ''U1''" "''Important todo: call Bob''"] k p m c
  show ?thesis by simp
qed

section \<open>Reading and extending the persisted stores\<close>

text \<open>
  C8. Where the store file is missing or has size 0, the reader returns the empty
  state and raises nothing: no events and no last-updated time for the events store;
  no messages, no last-updated time and the count 0 for the message-logging store.
\<close>

theorem load_missing_or_empty:
  "(d jf = None \<or> d jf = Some (Raw []) \<longrightarrow>
      load_existing_data jf d = JObj [(''events'', JArr []), (''last_updated'', JNull)]) \<and>
   (d LOGGING_FILE = None \<or> d LOGGING_FILE = Some (Raw []) \<longrightarrow>
      load_logging_data d =
        JObj [(''messages'', JArr []), (''last_updated'', JNull), (''total_messages'', JNum 0)])"
  by (auto simp: load_existing_data_def load_logging_data_def exists_nonempty_def)

theorem load_missing_or_empty_witness:
  "load_existing_data ''events.json'' Map.empty =
     JObj [(''events'', JArr []), (''last_updated'', JNull)] \<and>
   load_logging_data [LOGGING_FILE \<mapsto> Raw []] =
     JObj [(''messages'', JArr []), (''last_updated'', JNull), (''total_messages'', JNum 0)] \<and>
   logging_messages [LOGGING_FILE \<mapsto> Raw []] = Some [] \<and>
   logging_field ''total_messages'' [LOGGING_FILE \<mapsto> Raw []] = Some (JNum 0) \<and>
   logging_field ''last_updated'' [LOGGING_FILE \<mapsto> Raw []] = Some JNull"
  using load_missing_or_empty [of Map.empty "''events.json''"]
    load_missing_or_empty [of "[LOGGING_FILE \<mapsto> Raw []]" "''events.json''"]
  by (simp add: logging_messages_def logging_field_def)

lemma load_after_save_to_logging:
  "load_logging_data (d(LOGGING_FILE \<mapsto> Doc v)) = v"
  by (simp add: load_logging_data_def exists_nonempty_def json_load_def)

lemma save_to_logging_succeeds_iff:
  "fst (save_to_logging now md d) = (logging_messages d \<noteq> None)"
  by (simp add: save_to_logging_def logging_messages_def logging_field_def Let_def
      split: json.splits option.splits)

text \<open>
  C10. After \<open>save_to_logging\<close> has returned \<open>True\<close>, a reader of the logging store
  finds the messages stored before, unchanged and in their order, followed by the new
  record as last element; \<open>total_messages\<close> is the length of that list and
  \<open>last_updated\<close> is the time of the call. No other file has changed.
\<close>

theorem save_to_logging_appends:
  assumes "save_to_logging now md d = (True, d')"
  shows "\<exists>ms. logging_messages d = Some ms \<and>
              logging_messages d' = Some (ms @ [md]) \<and>
              last (ms @ [md]) = md \<and>
              logging_field ''total_messages'' d' =
                Some (JNum (int (length (ms @ [md])))) \<and>
              logging_field ''last_updated'' d' = Some (JStr now) \<and>
              (\<forall>p. p \<noteq> LOGGING_FILE \<longrightarrow> d' p = d p)"
proof -
  from assms obtain existing_data ms where
    ld: "load_logging_data d = JObj existing_data" and
    ms: "map_of existing_data ''messages'' = Some (JArr ms)"
    by (auto simp: save_to_logging_def split: json.splits option.splits)
  from assms ld ms have d': "d' = d(LOGGING_FILE \<mapsto> Doc (JObj
      (AList.update ''total_messages'' (JNum (int (length (ms @ [md]))))
        (AList.update ''last_updated'' (JStr now)
          (AList.update ''messages'' (JArr (ms @ [md])) existing_data)))))"
    by (simp add: save_to_logging_def Let_def)
  have before: "logging_messages d = Some ms"
    using ld ms by (simp add: logging_messages_def logging_field_def)
  have after: "logging_messages d' = Some (ms @ [md])"
    unfolding d' logging_messages_def logging_field_def load_after_save_to_logging
    by (simp add: update_conv')
  have total: "logging_field ''total_messages'' d' =
      Some (JNum (int (length (ms @ [md]))))"
    unfolding d' logging_field_def load_after_save_to_logging
    by (simp add: update_conv')
  have updated: "logging_field ''last_updated'' d' = Some (JStr now)"
    unfolding d' logging_field_def load_after_save_to_logging
    by (simp add: update_conv')
  have others: "\<forall>p. p \<noteq> LOGGING_FILE \<longrightarrow> d' p = d p"
    unfolding d' by simp
  from before after total updated others show ?thesis by simp
qed

theorem save_to_logging_appends_witness:
  "save_to_logging ''2025-01-02T03:04:05'' (JStr ''second'')
     [LOGGING_FILE \<mapsto> Doc (JObj [(''messages'', JArr [JStr ''first'']),
                                    (''last_updated'', JNull), (''total_messages'', JNum 1)])] =
   (True,
    [LOGGING_FILE \<mapsto> Doc (JObj [(''messages'', JArr [JStr ''first'', JStr ''second'']),
                                   (''last_updated'', JStr ''2025-01-02T03:04:05''),
                                   (''total_messages'', JNum 2)])]) \<and>
   logging_messages
     [LOGGING_FILE \<mapsto> Doc (JObj [(''messages'', JArr [JStr ''first'', JStr ''second'']),
                                    (''last_updated'', JStr ''2025-01-02T03:04:05''),
                                    (''total_messages'', JNum 2)])] =
   Some [JStr ''first'', JStr ''second'']"
proof -
  have run: "save_to_logging ''2025-01-02T03:04:05'' (JStr ''second'')
     [LOGGING_FILE \<mapsto> Doc (JObj [(''messages'', JArr [JStr ''first'']),
                                    (''last_updated'', JNull), (''total_messages'', JNum 1)])] =
   (True,
    [LOGGING_FILE \<mapsto> Doc (JObj [(''messages'', JArr [JStr ''first'', JStr ''second'']),
                                   (''last_updated'', JStr ''2025-01-02T03:04:05''),
                                   (''total_messages'', JNum 2)])])"
    by (simp add: save_to_logging_def load_logging_data_def exists_nonempty_def json_load_def)
  have before: "logging_messages
     [LOGGING_FILE \<mapsto> Doc (JObj [(''messages'', JArr [JStr ''first'']),
                                    (''last_updated'', JNull), (''total_messages'', JNum 1)])] =
     Some [JStr ''first'']"
    by (simp add: logging_messages_def logging_field_def load_logging_data_def
        exists_nonempty_def json_load_def)
  from save_to_logging_appends [OF run] before run show ?thesis by auto
qed

section \<open>The checks before a download\<close>

text \<open>
  C4. In the Slack monitor a file is rejected as too large exactly when its size
  exceeds \<open>MAX_FILE_SIZE\<close>: a file of exactly that size passes the size check, and
  is admitted when its extension is supported and it has a download URL; one byte more
  is rejected as too large. The Drive monitor has no size ceiling: what it does with a
  listed file does not depend on the file's size.
\<close>

theorem size_gate:
  "(file_size_of fi > MAX_FILE_SIZE \<longrightarrow> download_gate fi = Reject too_large) \<and>
   (file_size_of fi \<le> MAX_FILE_SIZE \<longrightarrow> download_gate fi \<noteq> Reject too_large) \<and>
   (file_size_of fi \<le> MAX_FILE_SIZE \<and>
    lower (snd (splitext (file_name_of fi))) \<in> set SUPPORTED_EXTENSIONS \<and>
    file_url_of fi = Some u \<and> u \<noteq> [] \<longrightarrow> download_gate fi = Proceed u) \<and>
   download_listed_file service (file\<lparr>d_size := s\<rparr>) d = download_listed_file service file d"
  by (auto simp: download_gate_def download_listed_file_def Let_def split: option.splits)

theorem size_gate_witness:
  "file_size_of \<lparr>f_id = Some ''F1'', f_name = Some ''notes.txt'', f_size = Some 26214400,
      f_url_private_download = Some ''https://files.slack.com/F1'', f_url_private = None,
      f_mimetype = Some ''text/plain''\<rparr> = MAX_FILE_SIZE \<and>
   download_gate \<lparr>f_id = Some ''F1'', f_name = Some ''notes.txt'', f_size = Some 26214400,
      f_url_private_download = Some ''https://files.slack.com/F1'', f_url_private = None,
      f_mimetype = Some ''text/plain''\<rparr> = Proceed ''https://files.slack.com/F1'' \<and>
   download_gate \<lparr>f_id = Some ''F1'', f_name = Some ''notes.txt'', f_size = Some 26214401,
      f_url_private_download = Some ''https://files.slack.com/F1'', f_url_private = None,
      f_mimetype = Some ''text/plain''\<rparr> = Reject too_large"
proof -
  let ?at = "\<lparr>f_id = Some ''F1'', f_name = Some ''notes.txt'', f_size = Some 26214400,
      f_url_private_download = Some ''https://files.slack.com/F1'', f_url_private = None,
      f_mimetype = Some ''text/plain''\<rparr>"
  let ?over = "\<lparr>f_id = Some ''F1'', f_name = Some ''notes.txt'', f_size = Some 26214401,
      f_url_private_download = Some ''https://files.slack.com/F1'', f_url_private = None,
      f_mimetype = Some ''text/plain''\<rparr>"
  have size_at: "file_size_of ?at = MAX_FILE_SIZE"
    by (simp add: file_size_of_def MAX_FILE_SIZE_def)
  have ext: "lower (snd (splitext (file_name_of ?at))) \<in> set SUPPORTED_EXTENSIONS"
    by code_simp
  have url: "file_url_of ?at = Some ''https://files.slack.com/F1''"
    by (simp add: file_url_of_def)
  have size_over: "file_size_of ?over > MAX_FILE_SIZE"
    by (simp add: file_size_of_def MAX_FILE_SIZE_def)
  from size_gate [of ?at "''https://files.slack.com/F1''"] size_at ext url
  have "download_gate ?at = Proceed ''https://files.slack.com/F1''" by simp
  moreover from size_gate [of ?over] size_over
  have "download_gate ?over = Reject too_large" by simp
  ultimately show ?thesis using size_at by simp
qed

theorem drive_no_size_ceiling_counterexample:
  "MAX_FILE_SIZE < 1000000000 \<and>
   \<not> startswith ''application/pdf'' ''application/vnd.google-apps'' \<and>
   download_listed_file (\<lambda>r. ([''%PDF''], False))
     \<lparr>d_id = ''f9'', d_name = ''big.pdf'', d_createdTime = None,
      d_mimeType = Some ''application/pdf'', d_size = Some 1000000000\<rparr> Map.empty =
   (True, [''knowledge_base/drive/big.pdf'' \<mapsto> Raw ''%PDF''])"
  by (simp add: MAX_FILE_SIZE_def download_listed_file_def drive_download_file_def
      prepare_request_def path_join_def DRIVE_DOWNLOAD_FOLDER_def open_wb_def write_bytes_def)

text \<open>
  C5. The decision of the Slack checks is a function of the file's size, the extension
  of its name and its download URL: two files that agree on size and extension and on
  the URL get the same decision, and two that agree on size and extension and on
  whether there is a usable URL are rejected for the same reasons and admitted
  together, whatever their other fields are.
\<close>

theorem gate_decision_function:
  "file_size_of a = file_size_of b \<and>
   lower (snd (splitext (file_name_of a))) = lower (snd (splitext (file_name_of b))) \<longrightarrow>
     (file_url_of a = file_url_of b \<longrightarrow> download_gate a = download_gate b) \<and>
     ((file_url_of a \<in> {None, Some []}) = (file_url_of b \<in> {None, Some []}) \<longrightarrow>
        (\<forall>r. (download_gate a = Reject r) = (download_gate b = Reject r)))"
  by (auto simp: download_gate_def Let_def split: option.splits if_splits)

theorem gate_decision_function_witness:
  "download_gate \<lparr>f_id = Some ''F1'', f_name = Some ''a.txt'', f_size = Some 500,
      f_url_private_download = Some ''https://files.slack.com/F'', f_url_private = None,
      f_mimetype = Some ''text/plain''\<rparr> =
   download_gate \<lparr>f_id = Some ''F2'', f_name = Some ''other name.TXT'', f_size = Some 500,
      f_url_private_download = None, f_url_private = Some ''https://files.slack.com/F'',
      f_mimetype = None\<rparr>"
proof -
  let ?a = "\<lparr>f_id = Some ''F1'', f_name = Some ''a.txt'', f_size = Some 500,
      f_url_private_download = Some ''https://files.slack.com/F'', f_url_private = None,
      f_mimetype = Some ''text/plain''\<rparr>"
  let ?b = "\<lparr>f_id = Some ''F2'', f_name = Some ''other name.TXT'', f_size = Some 500,
      f_url_private_download = None, f_url_private = Some ''https://files.slack.com/F'',
      f_mimetype = None\<rparr>"
  have size: "file_size_of ?a = file_size_of ?b" by (simp add: file_size_of_def)
  have ext: "lower (snd (splitext (file_name_of ?a))) = lower (snd (splitext (file_name_of ?b)))"
    by code_simp
  have url: "file_url_of ?a = file_url_of ?b" by (simp add: file_url_of_def)
  from gate_decision_function [of ?a ?b] size ext url show ?thesis by simp
qed

theorem gate_depends_on_url_counterexample:
  "file_size_of \<lparr>f_id = Some ''F1'', f_name = Some ''a.txt'', f_size = Some 500,
      f_url_private_download = Some ''https://files.slack.com/F'', f_url_private = None,
      f_mimetype = Some ''text/plain''\<rparr> =
   file_size_of \<lparr>f_id = Some ''F1'', f_name = Some ''a.txt'', f_size = Some 500,
      f_url_private_download = None, f_url_private = None,
      f_mimetype = Some ''text/plain''\<rparr> \<and>
   snd (splitext (file_name_of \<lparr>f_id = Some ''F1'', f_name = Some ''a.txt'', f_size = Some 500,
      f_url_private_download = Some ''https://files.slack.com/F'', f_url_private = None,
      f_mimetype = Some ''text/plain''\<rparr>)) =
   snd (splitext (file_name_of \<lparr>f_id = Some ''F1'', f_name = Some ''a.txt'', f_size = Some 500,
      f_url_private_download = None, f_url_private = None,
      f_mimetype = Some ''text/plain''\<rparr>)) \<and>
   download_gate \<lparr>f_id = Some ''F1'', f_name = Some ''a.txt'', f_size = Some 500,
      f_url_private_download = Some ''https://files.slack.com/F'', f_url_private = None,
      f_mimetype = Some ''text/plain''\<rparr> = Proceed ''https://files.slack.com/F'' \<and>
   download_gate \<lparr>f_id = Some ''F1'', f_name = Some ''a.txt'', f_size = Some 500,
      f_url_private_download = None, f_url_private = None,
      f_mimetype = Some ''text/plain''\<rparr> = Reject no_download_url"
  by code_simp

section \<open>What a transfer leaves on the disk\<close>

lemma write_bytes_opened:
  "write_bytes (d(p \<mapsto> Raw bs)) p chunk = d(p \<mapsto> Raw (bs @ chunk))"
  by (simp add: write_bytes_def)

lemma write_chunks_opened:
  "write_chunks p chunks (d(p \<mapsto> Raw bs), n) =
     (d(p \<mapsto> Raw (bs @ concat chunks)), n + length (concat chunks))"
  by (induction chunks arbitrary: bs n) (simp_all add: write_bytes_opened)

lemma write_chunks_open_wb:
  "write_chunks p chunks (open_wb d p, 0) =
     (d(p \<mapsto> Raw (concat chunks)), length (concat chunks))"
  using write_chunks_opened [of p chunks d "[]" 0] by (simp add: open_wb_def)

text \<open>
  C2. When a transfer breaks after some chunks have arrived, the downloader returns its
  failure result (\<open>None\<close> in the Slack monitor, \<open>False\<close> in the Drive monitor) and the
  file at the final path holds exactly the bytes received before the failure: the
  partial file stays where it is.
\<close>

theorem broken_transfer_keeps_partial_file:
  "(download_gate fi = Proceed u \<and> http_get e u = Response 200 chunks True \<longrightarrow>
      download_file e fi d =
        (None, d(path_join DOWNLOAD_FOLDER (now_stamp e @ ''_'' @ file_name_of fi) \<mapsto>
                   Raw (concat chunks)))) \<and>
   (prepare_request i n mt = Some (r, n') \<and> service r = (chunks', True) \<longrightarrow>
      drive_download_file service i n mt d' =
        (False, d'(path_join DRIVE_DOWNLOAD_FOLDER n' \<mapsto> Raw (concat chunks'))))"
  by (simp add: download_file_def drive_download_file_def Let_def write_chunks_open_wb)

theorem broken_transfer_keeps_partial_file_witness:
  "download_file
     \<lparr>http_get = (\<lambda>u. Response 200 [''abc'', ''de''] True), now_stamp = ''20250102_030405'',
      now_iso = ''2025-01-02T03:04:05''\<rparr>
     \<lparr>f_id = Some ''F1'', f_name = Some ''a.txt'', f_size = Some 500,
      f_url_private_download = Some ''https://files.slack.com/F'', f_url_private = None,
      f_mimetype = Some ''text/plain''\<rparr> Map.empty =
   (None, [''knowledge_base/slack/20250102_030405_a.txt'' \<mapsto> Raw ''abcde'']) \<and>
   drive_download_file (\<lambda>r. ([''abc'', ''de''], True)) ''f1'' ''a.txt'' ''text/plain'' Map.empty =
   (False, [''knowledge_base/drive/a.txt'' \<mapsto> Raw ''abcde''])"
proof -
  let ?e = "\<lparr>http_get = (\<lambda>u. Response 200 [''abc'', ''de''] True),
      now_stamp = ''20250102_030405'', now_iso = ''2025-01-02T03:04:05''\<rparr>"
  let ?fi = "\<lparr>f_id = Some ''F1'', f_name = Some ''a.txt'', f_size = Some 500,
      f_url_private_download = Some ''https://files.slack.com/F'', f_url_private = None,
      f_mimetype = Some ''text/plain''\<rparr>"
  have gate: "download_gate ?fi = Proceed ''https://files.slack.com/F''" by code_simp
  have resp: "http_get ?e ''https://files.slack.com/F'' = Response 200 [''abc'', ''de''] True"
    by simp
  have req: "prepare_request ''f1'' ''a.txt'' ''text/plain'' = Some (get_media ''f1'', ''a.txt'')"
    by (simp add: prepare_request_def)
  from broken_transfer_keeps_partial_file
    [of ?fi "''https://files.slack.com/F''" ?e "[''abc'', ''de'']" Map.empty
        "''f1''" "''a.txt''" "''text/plain''" "get_media ''f1''" "''a.txt''"
        "\<lambda>r. ([''abc'', ''de''], True)" "[''abc'', ''de'']" Map.empty]
    gate resp req
  show ?thesis
    by (simp add: path_join_def DOWNLOAD_FOLDER_def DRIVE_DOWNLOAD_FOLDER_def file_name_of_def)
qed

theorem partial_file_remains_counterexample:
  "fst (download_file
     \<lparr>http_get = (\<lambda>u. Response 200 [''abc''] True), now_stamp = ''20250102_030405'',
      now_iso = ''2025-01-02T03:04:05''\<rparr>
     \<lparr>f_id = Some ''F1'', f_name = Some ''a.txt'', f_size = Some 500,
      f_url_private_download = Some ''https://files.slack.com/F'', f_url_private = None,
      f_mimetype = Some ''text/plain''\<rparr> Map.empty) = None \<and>
   snd (download_file
     \<lparr>http_get = (\<lambda>u. Response 200 [''abc''] True), now_stamp = ''20250102_030405'',
      now_iso = ''2025-01-02T03:04:05''\<rparr>
     \<lparr>f_id = Some ''F1'', f_name = Some ''a.txt'', f_size = Some 500,
      f_url_private_download = Some ''https://files.slack.com/F'', f_url_private = None,
      f_mimetype = Some ''text/plain''\<rparr> Map.empty)
     ''knowledge_base/slack/20250102_030405_a.txt'' = Some (Raw ''abc'') \<and>
   fst (drive_download_file (\<lambda>r. ([''abc''], True)) ''f1'' ''a.txt'' ''text/plain'' Map.empty) =
     False \<and>
   snd (drive_download_file (\<lambda>r. ([''abc''], True)) ''f1'' ''a.txt'' ''text/plain'' Map.empty)
     ''knowledge_base/drive/a.txt'' = Some (Raw ''abc'')"
  by code_simp

section \<open>Drive monitor: Google Workspace documents are exported\<close>

lemma export_formats_virtual:
  "map_of export_formats mt = Some fmt \<Longrightarrow> startswith mt ''application/vnd.google-apps''"
  by (auto simp: export_formats_def split: if_splits)

text \<open>
  C6. A Google Workspace document is looked up in \<open>export_formats\<close> by its MIME
  type. A mapped type is requested as an export to the mapped MIME type and its file
  name gains the matching extension: \<open>.docx\<close> for a document, \<open>.xlsx\<close> for a
  spreadsheet, \<open>.pptx\<close> for a presentation; the export is saved under that name. An
  unmapped type is refused: \<open>download_file\<close> returns \<open>False\<close> whatever the service
  would answer, and the disk is as before.
\<close>

theorem virtual_document_export:
  "prepare_request i n ''application/vnd.google-apps.document'' =
     Some (export_media i
             ''application/vnd.openxmlformats-officedocument.wordprocessingml.document'',
           n @ ''.docx'') \<and>
   prepare_request i n ''application/vnd.google-apps.spreadsheet'' =
     Some (export_media i ''application/vnd.openxmlformats-officedocument.spreadsheetml.sheet'',
           n @ ''.xlsx'') \<and>
   prepare_request i n ''application/vnd.google-apps.presentation'' =
     Some (export_media i
             ''application/vnd.openxmlformats-officedocument.presentationml.presentation'',
           n @ ''.pptx'') \<and>
   (map_of export_formats mt = Some fmt \<longrightarrow>
      (\<exists>ext. ext \<in> {''.docx'', ''.xlsx'', ''.pptx''} \<and>
         prepare_request i n mt = Some (export_media i fmt, n @ ext) \<and>
         drive_download_file service i n mt d =
           (\<not> snd (service (export_media i fmt)),
            d(path_join DRIVE_DOWNLOAD_FOLDER (n @ ext) \<mapsto>
                Raw (concat (fst (service (export_media i fmt)))))))) \<and>
   (startswith mt ''application/vnd.google-apps'' \<and> map_of export_formats mt = None \<longrightarrow>
      prepare_request i n mt = None \<and> drive_download_file service i n mt d = (False, d))"
proof -
  have fixed: "prepare_request i n ''application/vnd.google-apps.document'' =
     Some (export_media i
             ''application/vnd.openxmlformats-officedocument.wordprocessingml.document'',
           n @ ''.docx'') \<and>
   prepare_request i n ''application/vnd.google-apps.spreadsheet'' =
     Some (export_media i ''application/vnd.openxmlformats-officedocument.spreadsheetml.sheet'',
           n @ ''.xlsx'') \<and>
   prepare_request i n ''application/vnd.google-apps.presentation'' =
     Some (export_media i
             ''application/vnd.openxmlformats-officedocument.presentationml.presentation'',
           n @ ''.pptx'')"
    by (simp add: prepare_request_def export_formats_def)
  have mapped: "\<exists>ext. ext \<in> {''.docx'', ''.xlsx'', ''.pptx''} \<and>
         prepare_request i n mt = Some (export_media i fmt, n @ ext) \<and>
         drive_download_file service i n mt d =
           (\<not> snd (service (export_media i fmt)),
            d(path_join DRIVE_DOWNLOAD_FOLDER (n @ ext) \<mapsto>
                Raw (concat (fst (service (export_media i fmt))))))"
    if m: "map_of export_formats mt = Some fmt"
  proof -
    from m consider
      "mt = ''application/vnd.google-apps.document''" |
      "mt = ''application/vnd.google-apps.spreadsheet''" |
      "mt = ''application/vnd.google-apps.presentation''"
      by (auto simp: export_formats_def split: if_splits)
    then show ?thesis
    proof cases
      case 1
      with m fixed show ?thesis
        by (simp add: drive_download_file_def Let_def write_chunks_open_wb export_formats_def)
    next
      case 2
      with m fixed show ?thesis
        by (simp add: drive_download_file_def Let_def write_chunks_open_wb export_formats_def)
    next
      case 3
      with m fixed show ?thesis
        by (simp add: drive_download_file_def Let_def write_chunks_open_wb export_formats_def)
    qed
  qed
  have unmapped: "prepare_request i n mt = None \<and> drive_download_file service i n mt d = (False, d)"
    if "startswith mt ''application/vnd.google-apps''" "map_of export_formats mt = None"
    using that by (simp add: prepare_request_def drive_download_file_def)
  from fixed mapped unmapped show ?thesis by blast
qed

theorem virtual_document_export_witness:
  "startswith ''application/vnd.google-apps.form'' ''application/vnd.google-apps'' \<and>
   map_of export_formats ''application/vnd.google-apps.form'' = None \<and>
   drive_download_file (\<lambda>r. ([''PK''], False)) ''f3'' ''Survey''
     ''application/vnd.google-apps.form'' Map.empty = (False, Map.empty) \<and>
   map_of export_formats ''application/vnd.google-apps.spreadsheet'' =
     Some ''application/vnd.openxmlformats-officedocument.spreadsheetml.sheet'' \<and>
   drive_download_file (\<lambda>r. ([''PK''], False)) ''f2'' ''Budget''
     ''application/vnd.google-apps.spreadsheet'' Map.empty =
   (True, [''knowledge_base/drive/Budget.xlsx'' \<mapsto> Raw ''PK''])"
proof -
  have v: "startswith ''application/vnd.google-apps.form'' ''application/vnd.google-apps''"
    by simp
  have u: "map_of export_formats ''application/vnd.google-apps.form'' = None"
    by (simp add: export_formats_def)
  have m: "map_of export_formats ''application/vnd.google-apps.spreadsheet'' =
     Some ''application/vnd.openxmlformats-officedocument.spreadsheetml.sheet''"
    by (simp add: export_formats_def)
  from virtual_document_export
    [where i = "''f3''" and n = "''Survey''" and mt = "''application/vnd.google-apps.form''"
       and service = "\<lambda>r. ([''PK''], False)" and d = Map.empty] v u
  have refused: "drive_download_file (\<lambda>r. ([''PK''], False)) ''f3'' ''Survey''
     ''application/vnd.google-apps.form'' Map.empty = (False, Map.empty)"
    by blast
  from virtual_document_export
    [where i = "''f2''" and n = "''Budget''"
       and mt = "''application/vnd.google-apps.spreadsheet''"
       and fmt = "''application/vnd.openxmlformats-officedocument.spreadsheetml.sheet''"
       and service = "\<lambda>r. ([''PK''], False)" and d = Map.empty] m
  have exported: "drive_download_file (\<lambda>r. ([''PK''], False)) ''f2'' ''Budget''
     ''application/vnd.google-apps.spreadsheet'' Map.empty =
     (True, [''knowledge_base/drive/Budget.xlsx'' \<mapsto> Raw ''PK''])"
    by (auto simp: path_join_def DRIVE_DOWNLOAD_FOLDER_def)
  from v u m refused exported show ?thesis by simp
qed

section \<open>Drive monitor: which files a poll treats as new\<close>

lemma download_success_any_disk:
  "fst (download_listed_file service file d) = fst (download_listed_file service file d0)"
  by (simp add: download_listed_file_def drive_download_file_def Let_def
      split: option.splits prod.splits)

lemma process_new_files_known:
  "fst (process_new_files service new fs (K, d)) =
     K \<union> {d_id f | f. f \<in> set fs \<and> d_id f \<in> new \<and>
                      fst (download_listed_file service f Map.empty)}"
proof (induction fs arbitrary: K d)
  case Nil
  then show ?case by simp
next
  case (Cons fl fs)
  show ?case
  proof (cases "d_id fl \<in> new")
    case False
    then show ?thesis using Cons.IH [of K d] by auto
  next
    case True
    obtain success d1 where dl: "download_listed_file service fl d = (success, d1)"
      by (cases "download_listed_file service fl d")
    have ok: "fst (download_listed_file service fl Map.empty) = success"
      using download_success_any_disk [of service fl Map.empty d] dl by simp
    show ?thesis
      using True dl ok Cons.IH [of "if success then insert (d_id fl) K else K" d1]
      by auto
  qed
qed

lemma new_partitions_append:
  "new_partitions (xs @ ys) = new_partitions xs @ new_partitions ys"
  by (induction xs rule: new_partitions.induct) simp_all

lemma poll_cycle_step:
  "\<exists>Y. actions (poll_cycle p st) = actions st @ Y \<and>
       (\<forall>ids \<in> set (new_partitions Y). set ids \<inter> known_files st = {}) \<and>
       known_files st \<subseteq> known_files (poll_cycle p st)"
proof (cases p)
  case (Listing fs service)
  then show ?thesis
    by (auto simp: poll_cycle_def Let_def process_new_files_known)
qed (simp_all add: poll_cycle_def)

lemma monitor_drive_loop_run:
  "\<exists>Y. actions (monitor_drive_loop polls st) = actions st @ Y \<and>
       (\<forall>ids \<in> set (new_partitions Y). set ids \<inter> known_files st = {}) \<and>
       known_files st \<subseteq> known_files (monitor_drive_loop polls st)"
proof (induction polls arbitrary: st)
  case Nil
  then show ?case by simp
next
  case (Cons p polls)
  show ?case
  proof (cases "p = KeyboardInterrupt")
    case True
    then show ?thesis by simp
  next
    case False
    then have step: "monitor_drive_loop (p # polls) st = monitor_drive_loop polls (poll_cycle p st)"
      by (cases p) simp_all
    from poll_cycle_step [of p st] obtain Y1 where
      a1: "actions (poll_cycle p st) = actions st @ Y1" and
      n1: "\<forall>ids \<in> set (new_partitions Y1). set ids \<inter> known_files st = {}" and
      k1: "known_files st \<subseteq> known_files (poll_cycle p st)"
      by blast
    from Cons.IH [of "poll_cycle p st"] obtain Y2 where
      a2: "actions (monitor_drive_loop polls (poll_cycle p st)) = actions (poll_cycle p st) @ Y2" and
      n2: "\<forall>ids \<in> set (new_partitions Y2). set ids \<inter> known_files (poll_cycle p st) = {}" and
      k2: "known_files (poll_cycle p st) \<subseteq> known_files (monitor_drive_loop polls (poll_cycle p st))"
      by blast
    have acts: "actions (monitor_drive_loop (p # polls) st) = actions st @ (Y1 @ Y2)"
      using step a1 a2 by simp
    have news: "\<forall>ids \<in> set (new_partitions (Y1 @ Y2)). set ids \<inter> known_files st = {}"
      using n1 n2 k1 by (auto simp: new_partitions_append)
    have known: "known_files st \<subseteq> known_files (monitor_drive_loop (p # polls) st)"
      using step k1 k2 by auto
    from acts news known show ?thesis by blast
  qed
qed

text \<open>
  C1. \<open>known_files\<close> never loses an id, and an id in \<open>known_files\<close> is in the new
  partition of no later poll; the ids of the first listing are in none at all. A poll
  treats as new the listed files whose id is not yet known, and adds to
  \<open>known_files\<close> exactly those of them whose download succeeded: a file whose
  download failed stays out of \<open>known_files\<close>.
\<close>

theorem known_files_dedup:
  "known_files st \<subseteq> known_files (monitor_drive_loop polls st) \<and>
   (\<forall>ids \<in> set (new_partitions
                   (drop (length (actions st)) (actions (monitor_drive_loop polls st)))).
      set ids \<inter> known_files st = {}) \<and>
   (\<forall>ids \<in> set (new_partitions (actions (monitor_drive (Some files) polls d))).
      set ids \<inter> set (map d_id files) = {}) \<and>
   new_partitions (drop (length (actions st)) (actions (poll_cycle (Listing fs service) st))) =
     [filter (\<lambda>i. i \<notin> known_files st) (map d_id fs)] \<and>
   known_files (poll_cycle (Listing fs service) st) =
     known_files st \<union>
       {d_id f | f. f \<in> set fs \<and> d_id f \<notin> known_files st \<and>
                    fst (download_listed_file service f Map.empty)}"
proof -
  from monitor_drive_loop_run [of polls st] obtain Y where
    "actions (monitor_drive_loop polls st) = actions st @ Y" and
    "\<forall>ids \<in> set (new_partitions Y). set ids \<inter> known_files st = {}" and
    "known_files st \<subseteq> known_files (monitor_drive_loop polls st)"
    by blast
  then have loop: "known_files st \<subseteq> known_files (monitor_drive_loop polls st) \<and>
     (\<forall>ids \<in> set (new_partitions
                   (drop (length (actions st)) (actions (monitor_drive_loop polls st)))).
        set ids \<inter> known_files st = {})"
    by simp
  from monitor_drive_loop_run
    [of polls "\<lparr>known_files = set (map d_id files), drive_disk = d, actions = []\<rparr>"]
  have start: "\<forall>ids \<in> set (new_partitions (actions (monitor_drive (Some files) polls d))).
      set ids \<inter> set (map d_id files) = {}"
    by (auto simp: monitor_drive_def)
  have part: "new_partitions
       (drop (length (actions st)) (actions (poll_cycle (Listing fs service) st))) =
     [filter (\<lambda>i. i \<notin> known_files st) (map d_id fs)]"
    by (simp add: poll_cycle_def Let_def, intro filter_cong, auto)
  have added: "known_files (poll_cycle (Listing fs service) st) =
     known_files st \<union>
       {d_id f | f. f \<in> set fs \<and> d_id f \<notin> known_files st \<and>
                    fst (download_listed_file service f Map.empty)}"
    by (auto simp: poll_cycle_def Let_def process_new_files_known)
  from loop start part added show ?thesis by blast
qed

theorem known_files_dedup_witness:
  "{''f0''} \<subseteq> known_files (monitor_drive_loop
       [Listing [\<lparr>d_id = ''f0'', d_name = ''old.pdf'', d_createdTime = None,
                   d_mimeType = Some ''application/pdf'', d_size = None\<rparr>,
                 \<lparr>d_id = ''f1'', d_name = ''new.pdf'', d_createdTime = None,
                   d_mimeType = Some ''application/pdf'', d_size = None\<rparr>]
          (\<lambda>r. ([''%PDF''], False))]
       \<lparr>known_files = {''f0''}, drive_disk = Map.empty, actions = []\<rparr>) \<and>
   new_partitions (actions (poll_cycle
       (Listing [\<lparr>d_id = ''f0'', d_name = ''old.pdf'', d_createdTime = None,
                   d_mimeType = Some ''application/pdf'', d_size = None\<rparr>,
                 \<lparr>d_id = ''f1'', d_name = ''new.pdf'', d_createdTime = None,
                   d_mimeType = Some ''application/pdf'', d_size = None\<rparr>]
          (\<lambda>r. ([''%PDF''], False)))
       \<lparr>known_files = {''f0''}, drive_disk = Map.empty, actions = []\<rparr>)) = [[''f1'']] \<and>
   known_files (poll_cycle
       (Listing [\<lparr>d_id = ''f0'', d_name = ''old.pdf'', d_createdTime = None,
                   d_mimeType = Some ''application/pdf'', d_size = None\<rparr>,
                 \<lparr>d_id = ''f1'', d_name = ''new.pdf'', d_createdTime = None,
                   d_mimeType = Some ''application/pdf'', d_size = None\<rparr>]
          (\<lambda>r. ([''%PDF''], False)))
       \<lparr>known_files = {''f0''}, drive_disk = Map.empty, actions = []\<rparr>) = {''f0'', ''f1''}"
proof -
  let ?f0 = "\<lparr>d_id = ''f0'', d_name = ''old.pdf'', d_createdTime = None,
                   d_mimeType = Some ''application/pdf'', d_size = None\<rparr>"
  let ?f1 = "\<lparr>d_id = ''f1'', d_name = ''new.pdf'', d_createdTime = None,
                   d_mimeType = Some ''application/pdf'', d_size = None\<rparr>"
  let ?st = "\<lparr>known_files = {''f0''}, drive_disk = Map.empty, actions = []\<rparr>"
  have ok: "fst (download_listed_file (\<lambda>r. ([''%PDF''], False)) ?f1 Map.empty)"
    by (simp add: download_listed_file_def drive_download_file_def prepare_request_def Let_def)
  have added: "{d_id f | f. f \<in> set [?f0, ?f1] \<and> d_id f \<notin> known_files ?st \<and>
                  fst (download_listed_file (\<lambda>r. ([''%PDF''], False)) f Map.empty)} = {''f1''}"
    using ok by (auto intro!: exI [of _ ?f1])
  from known_files_dedup
    [where st = ?st and polls = "[Listing [?f0, ?f1] (\<lambda>r. ([''%PDF''], False))]"
       and files = "[]" and d = Map.empty and fs = "[?f0, ?f1]"
       and service = "\<lambda>r. ([''%PDF''], False)"]
  show ?thesis unfolding added by auto
qed

theorem failed_download_new_again_counterexample:
  "new_partitions (actions (monitor_drive (Some [])
       [Listing [\<lparr>d_id = ''f1'', d_name = ''a.pdf'', d_createdTime = None,
                   d_mimeType = Some ''application/pdf'', d_size = Some 3\<rparr>]
          (\<lambda>r. ([''ab''], True)),
        Listing [\<lparr>d_id = ''f1'', d_name = ''a.pdf'', d_createdTime = None,
                   d_mimeType = Some ''application/pdf'', d_size = Some 3\<rparr>]
          (\<lambda>r. ([''ab''], True))] Map.empty)) = [[''f1''], [''f1'']] \<and>
   ''f1'' \<notin> known_files (monitor_drive (Some [])
       [Listing [\<lparr>d_id = ''f1'', d_name = ''a.pdf'', d_createdTime = None,
                   d_mimeType = Some ''application/pdf'', d_size = Some 3\<rparr>]
          (\<lambda>r. ([''ab''], True)),
        Listing [\<lparr>d_id = ''f1'', d_name = ''a.pdf'', d_createdTime = None,
                   d_mimeType = Some ''application/pdf'', d_size = Some 3\<rparr>]
          (\<lambda>r. ([''ab''], True))] Map.empty)"
  by code_simp

section \<open>A poll cycle whose listing fails\<close>






section \<open>Slack monitor: the bot's own messages\<close>

lemma log_messages_skips_author:
  "log_messages e (Some b) (filter (\<lambda>m. m_user m \<noteq> Some b) ms) d =
   log_messages e (Some b) ms d"
  by (induction ms arbitrary: d) (simp_all split: prod.splits)

lemma check_messages_skips_author:
  "check_messages e jf (Some b) ch (filter (\<lambda>m. m_user m \<noteq> Some b) ms) d =
   check_messages e jf (Some b) ch ms d"
  by (induction ms arbitrary: d) (simp_all split: option.splits)

lemma scan_messages_skips_author:
  "scan_messages e (Some b) (filter (\<lambda>m. m_user m \<noteq> Some b) ms) n d =
   scan_messages e (Some b) ms n d"
  by (induction ms arbitrary: n d) (simp_all split: prod.splits)

lemma log_all_recent_messages_skips_author:
  "log_all_recent_messages e (Some b) (\<lambda>ch. without_author b (h ch)) channels d =
   log_all_recent_messages e (Some b) h channels d"
proof (induction channels arbitrary: d)
  case Nil
  then show ?case by simp
next
  case (Cons ch channels)
  then show ?case
    by (cases "h ch")
      (simp_all add: without_author_def get_recent_messages_def log_messages_skips_author)
qed

lemma check_bot_mentions_and_keywords_skips_author:
  "check_bot_mentions_and_keywords e jf (Some b) (\<lambda>ch. without_author b (h ch)) channels d =
   check_bot_mentions_and_keywords e jf (Some b) h channels d"
proof (induction channels arbitrary: d)
  case Nil
  then show ?case by simp
next
  case (Cons ch channels)
  then show ?case
    by (cases "h ch")
      (simp_all add: without_author_def get_recent_messages_def check_messages_skips_author)
qed

lemma check_for_files_in_history_skips_author:
  "check_for_files_in_history e (Some b) (\<lambda>ch. without_author b (h ch)) channels n d =
   check_for_files_in_history e (Some b) h channels n d"
proof (induction channels arbitrary: n d)
  case Nil
  then show ?case by simp
next
  case (Cons ch channels)
  then show ?case
    by (cases "h ch")
      (simp_all add: without_author_def scan_messages_skips_author split: prod.splits)
qed

text \<open>
  C9. Every pass over the messages ignores those whose author is the bot itself:
  the logging pass, the trigger pass and the startup scan of the history each leave
  the disk (message log, events store and downloaded files) and return the result they
  would with these messages taken out of every listing. So such a message is not
  logged, gives no event, and none of its files is downloaded.
\<close>

theorem bot_messages_ignored:
  "log_all_recent_messages e (Some b) h channels d =
     log_all_recent_messages e (Some b) (\<lambda>ch. without_author b (h ch)) channels d \<and>
   check_bot_mentions_and_keywords e jf (Some b) h channels d =
     check_bot_mentions_and_keywords e jf (Some b) (\<lambda>ch. without_author b (h ch)) channels d \<and>
   check_for_files_in_history e (Some b) h channels n d =
     check_for_files_in_history e (Some b) (\<lambda>ch. without_author b (h ch)) channels n d \<and>
   (m_user m = Some b \<longrightarrow>
      log_messages e (Some b) (m # ms) d = log_messages e (Some b) ms d \<and>
      check_messages e jf (Some b) c (m # ms) d = check_messages e jf (Some b) c ms d \<and>
      scan_messages e (Some b) (m # ms) n d = scan_messages e (Some b) ms n d)"
  by (simp add: log_all_recent_messages_skips_author
      check_bot_mentions_and_keywords_skips_author check_for_files_in_history_skips_author)

theorem bot_messages_ignored_witness:
  "log_all_recent_messages
     \<lparr>http_get = (\<lambda>u. Response 200 [''abc''] False), now_stamp = ''20250102_030405'',
      now_iso = ''2025-01-02T03:04:05''\<rparr> (Some ''UBOT'')
     (\<lambda>ch. Messages [\<lparr>m_user = Some ''UBOT'', m_text = Some ''important todo: /aisave'',
                        m_ts = Some ''1735787045.000100'',
                        m_files = [\<lparr>f_id = Some ''F1'', f_name = Some ''a.txt'',
                                    f_size = Some 3,
                                    f_url_private_download = Some ''https://files.slack.com/F1'',
                                    f_url_private = None, f_mimetype = Some ''text/plain''\<rparr>],
                        m_raw = JNull\<rparr>])
     [''C1''] Map.empty = Map.empty \<and>
   check_bot_mentions_and_keywords
     \<lparr>http_get = (\<lambda>u. Response 200 [''abc''] False), now_stamp = ''20250102_030405'',
      now_iso = ''2025-01-02T03:04:05''\<rparr> ''events.json'' (Some ''UBOT'')
     (\<lambda>ch. Messages [\<lparr>m_user = Some ''UBOT'', m_text = Some ''important todo: /aisave'',
                        m_ts = Some ''1735787045.000100'',
                        m_files = [\<lparr>f_id = Some ''F1'', f_name = Some ''a.txt'',
                                    f_size = Some 3,
                                    f_url_private_download = Some ''https://files.slack.com/F1'',
                                    f_url_private = None, f_mimetype = Some ''text/plain''\<rparr>],
                        m_raw = JNull\<rparr>])
     [''C1''] Map.empty = Map.empty \<and>
   check_for_files_in_history
     \<lparr>http_get = (\<lambda>u. Response 200 [''abc''] False), now_stamp = ''20250102_030405'',
      now_iso = ''2025-01-02T03:04:05''\<rparr> (Some ''UBOT'')
     (\<lambda>ch. Messages [\<lparr>m_user = Some ''UBOT'', m_text = Some ''important todo: /aisave'',
                        m_ts = Some ''1735787045.000100'',
                        m_files = [\<lparr>f_id = Some ''F1'', f_name = Some ''a.txt'',
                                    f_size = Some 3,
                                    f_url_private_download = Some ''https://files.slack.com/F1'',
                                    f_url_private = None, f_mimetype = Some ''text/plain''\<rparr>],
                        m_raw = JNull\<rparr>])
     [''C1''] 0 Map.empty = (False, Map.empty)"
proof -
  let ?e = "\<lparr>http_get = (\<lambda>u. Response 200 [''abc''] False), now_stamp = ''20250102_030405'',
      now_iso = ''2025-01-02T03:04:05''\<rparr>"
  let ?m = "\<lparr>m_user = Some ''UBOT'', m_text = Some ''important todo: /aisave'',
                        m_ts = Some ''1735787045.000100'',
                        m_files = [\<lparr>f_id = Some ''F1'', f_name = Some ''a.txt'',
                                    f_size = Some 3,
                                    f_url_private_download = Some ''https://files.slack.com/F1'',
                                    f_url_private = None, f_mimetype = Some ''text/plain''\<rparr>],
                        m_raw = JNull\<rparr>"
  have author: "m_user ?m = Some ''UBOT''" by simp
  from bot_messages_ignored
    [where e = ?e and b = "''UBOT''" and h = "\<lambda>ch. Messages [?m]" and channels = "[''C1'']"
       and d = Map.empty and jf = "''events.json''" and n = 0 and m = ?m and ms = "[]"
       and c = "''C1''"] author
  show ?thesis by (simp add: without_author_def get_recent_messages_def)
qed

end
